theory Spec2Isabelle
  imports Complex_Main "HOL-Library.Sublist" "HOL-Library.Multiset"
begin

section \<open>The candidate ranking engine of \<^verbatim>\<open>src/ranking.py\<close>\<close>

text \<open>
  The scoring functions of \<^verbatim>\<open>ranking.py\<close> and \<^verbatim>\<open>rank_candidates\<close> are embedded as
  HOL functions.  Conventions of the embedding:

  \<^item> A Python \<^verbatim>\<open>str\<close> is a \<^typ>\<open>string\<close>; a \<^typ>\<open>char\<close> is the code point of one
    character, so the embedding covers texts whose code points lie below 256.  The
    character tests \<^verbatim>\<open>str.lower\<close>, \<^verbatim>\<open>str.isspace\<close>, \<^verbatim>\<open>\s\<close> and \<^verbatim>\<open>\d\<close> are written out for
    exactly this range.
  \<^item> Python floats are exact rationals (\<^typ>\<open>rat\<close>): sums, quotients and \<^verbatim>\<open>min\<close> are
    computed without binary rounding, and \<^verbatim>\<open>round(x, 1)\<close> is rounding to the nearest
    tenth with ties going to the even tenth.
  \<^item> A Python \<^verbatim>\<open>set\<close> of strings is a duplicate-free list; the theorems below show
    that no result depends on the order of that list.
  \<^item> \<^verbatim>\<open>datetime.now().year\<close> is the parameter \<open>current_year\<close>.
  \<^item> A \<^verbatim>\<open>KeyError\<close> is the left summand of a sum type.
\<close>

subsection \<open>Characters and strings\<close>

definition lower_char :: "char \<Rightarrow> char" where
  "lower_char c =
     (let n = (of_char c :: nat)
      in if (65 \<le> n \<and> n \<le> 90) \<or> (192 \<le> n \<and> n \<le> 222 \<and> n \<noteq> 215)
         then char_of (n + 32) else c)"

text \<open>\<^verbatim>\<open>s.lower()\<close>\<close>

definition lower :: "string \<Rightarrow> string" where
  "lower s = map lower_char s"

text \<open>\<^verbatim>\<open>c.isspace()\<close>, which is also the class \<^verbatim>\<open>\s\<close> of \<^verbatim>\<open>re\<close> on \<^verbatim>\<open>str\<close> patterns.\<close>

definition isspace :: "char \<Rightarrow> bool" where
  "isspace c = (of_char c \<in> {9, 10, 11, 12, 13, 28, 29, 30, 31, 32, 133, 160 :: nat})"

text \<open>The class \<^verbatim>\<open>\d\<close>: below code point 256 the decimal digits are \<^verbatim>\<open>0\<close> to \<^verbatim>\<open>9\<close>.\<close>

definition isdigit :: "char \<Rightarrow> bool" where
  "isdigit c = (48 \<le> (of_char c :: nat) \<and> (of_char c :: nat) \<le> 57)"

text \<open>\<^verbatim>\<open>s.strip()\<close>\<close>

definition strip :: "string \<Rightarrow> string" where
  "strip s = rev (dropWhile isspace (rev (dropWhile isspace s)))"

text \<open>\<^verbatim>\<open>" ".join(xs)\<close>\<close>

fun join_space :: "string list \<Rightarrow> string" where
  "join_space [] = []"
| "join_space [x] = x"
| "join_space (x # y # ys) = x @ '' '' @ join_space (y # ys)"

text \<open>
  The substring test \<^verbatim>\<open>a in b\<close> of two strings is \<^term>\<open>sublist a b\<close>: \<open>b\<close> is
  \<open>ps @ a @ ss\<close> for some \<open>ps\<close> and \<open>ss\<close>.

  \<^verbatim>\<open>set(x.lower().strip() for x in xs if x)\<close>, the normalisation at the head of the
  skill, education and certification scores: entries that are empty before
  normalisation are dropped, the others are lower-cased, then stripped, and
  duplicates are removed.
\<close>

definition py_set :: "string list \<Rightarrow> string list" where
  "py_set xs = remdups (map (\<lambda>x. strip (lower x)) (filter (\<lambda>x. x \<noteq> []) xs))"

subsection \<open>Skill score\<close>

definition compute_skill_similarity :: "string list \<Rightarrow> string list \<Rightarrow> rat" where
  "compute_skill_similarity resume_skills required_skills =
     (let rs = py_set resume_skills;
          js = py_set required_skills
      in if js = [] then 0
         else
           let matches = filter (\<lambda>r. r \<in> set js) rs;
               partial_matches =
                 int (length (filter (\<lambda>(r_skill, j_skill).
                                        sublist r_skill j_skill \<or> sublist j_skill r_skill)
                                (List.product rs js)))
                 - int (length matches);
               score = int (length matches) * 5 + partial_matches * 2;
               max_possible = int (length js) * 5
           in if max_possible > 0 then min (of_int score / of_int max_possible) 1 * 50
              else 0)"

subsection \<open>Experience score\<close>

text \<open>
  \<^verbatim>\<open>re.search(r"(\d+\.?\d*)\s*years?", exp, re.IGNORECASE)\<close>.  At a fixed start the
  pattern has at most one way to match: the digits, the optional dot, the further
  digits and the white space are each taken greedily, and giving any of them back
  leaves a digit, a dot or a white space where the letter \<^verbatim>\<open>y\<close> is needed.
  \<open>match_years\<close> is that one attempt at the head of the text and yields group 1;
  \<open>search_years\<close> tries every start from the left, as \<^verbatim>\<open>re.search\<close> does.
\<close>

definition ci_prefix :: "string \<Rightarrow> string \<Rightarrow> bool" where
  "ci_prefix pat s = (length pat \<le> length s \<and> lower (take (length pat) s) = lower pat)"

definition match_years :: "string \<Rightarrow> string option" where
  "match_years s =
     (let d1 = takeWhile isdigit s;
          r1 = dropWhile isdigit s;
          dot = (if r1 \<noteq> [] \<and> hd r1 = CHR ''.'' then ''.'' else []);
          r2 = drop (length dot) r1;
          d2 = takeWhile isdigit r2;
          r3 = dropWhile isspace (dropWhile isdigit r2)
      in if d1 \<noteq> [] \<and> ci_prefix ''year'' r3 then Some (d1 @ dot @ d2) else None)"

fun search_years :: "string \<Rightarrow> string option" where
  "search_years [] = None"
| "search_years (c # cs) =
     (case match_years (c # cs) of
        Some g \<Rightarrow> Some g
      | None \<Rightarrow> search_years cs)"

text \<open>\<^verbatim>\<open>int(ds)\<close> on a string of decimal digits.\<close>

definition int_of_digits :: "string \<Rightarrow> int" where
  "int_of_digits ds = foldl (\<lambda>acc c. 10 * acc + (int (of_char c) - 48)) 0 ds"

text \<open>
  \<^verbatim>\<open>float(g)\<close> on a group of the shape digits, optional dot, digits: the decimal
  value, exactly.
\<close>

definition float_of_group :: "string \<Rightarrow> rat" where
  "float_of_group g =
     (let ip = takeWhile isdigit g;
          fp = drop 1 (dropWhile isdigit g)
      in of_int (int_of_digits ip) + of_int (int_of_digits fp) / 10 ^ length fp)"

text \<open>
  \<^verbatim>\<open>re.findall(r"(\d{4})\s*[-...]\s*(present|current|\d{4})", text, re.IGNORECASE)\<close>.
  The separator class of the source holds the hyphen and the en dash U+2013; the en
  dash is not a character of this embedding, so the class is the hyphen here.
  \<open>match_range\<close> is the one attempt at the head of the text (white space is taken
  greedily, and a shorter run leaves a white space where the next item is needed); it
  yields the two groups and the text after the match.  \<open>findall_ranges\<close> collects the
  matches from the left, each search starting where the last match ended.
\<close>

definition match_range :: "string \<Rightarrow> (string \<times> string \<times> string) option" where
  "match_range s =
     (let start = take 4 s;
          r1 = dropWhile isspace (drop 4 s);
          r2 = dropWhile isspace (drop 1 r1)
      in if length start = 4 \<and> list_all isdigit start \<and> r1 \<noteq> [] \<and> hd r1 = CHR ''-''
         then if ci_prefix ''present'' r2 then Some (start, take 7 r2, drop 7 r2)
              else if ci_prefix ''current'' r2 then Some (start, take 7 r2, drop 7 r2)
              else if length (take 4 r2) = 4 \<and> list_all isdigit (take 4 r2)
                   then Some (start, take 4 r2, drop 4 r2)
                   else None
         else None)"

function findall_ranges :: "string \<Rightarrow> (string \<times> string) list" where
  "findall_ranges s =
     (case match_range s of
        Some (a, b, rest) \<Rightarrow> (a, b) # findall_ranges rest
      | None \<Rightarrow> (case s of [] \<Rightarrow> [] | c # cs \<Rightarrow> findall_ranges cs))"
  by pat_completeness auto
termination
proof (relation "measure length")
  show "wf (measure length)" by simp
next
  fix s :: string and x2 a y b rest
  assume m: "match_range s = Some x2" "(a, y) = x2" "(b, rest) = y"
  define r1 where "r1 = dropWhile isspace (drop 4 s)"
  define r2 where "r2 = dropWhile isspace (drop 1 r1)"
  have four: "length (take 4 s) = 4"
    using m by (auto simp: match_range_def Let_def split: if_splits)
  have l1: "length r1 \<le> length s - 4"
    unfolding r1_def by (rule order_trans[OF length_dropWhile_le]) simp
  have l2: "length r2 \<le> length r1"
    unfolding r2_def by (rule order_trans[OF length_dropWhile_le]) simp
  have "length rest \<le> length r2"
    using m by (auto simp: match_range_def Let_def r1_def r2_def split: if_splits)
  with l1 l2 four show "(rest, s) \<in> measure length" by simp
next
  fix s :: string and c cs
  assume "s = c # cs"
  then show "(cs, s) \<in> measure length" by simp
qed

declare findall_ranges.simps [simp del]

text \<open>The inner loop over the date ranges of one entry (lines 35 to 38).\<close>

fun add_ranges :: "int \<Rightarrow> (string \<times> string) list \<Rightarrow> rat \<Rightarrow> rat" where
  "add_ranges current_year [] total_years = total_years"
| "add_ranges current_year ((start, end_s) # ms) total_years =
     (let end_year = (if lower end_s \<in> {''present'', ''current''} then current_year
                      else int_of_digits end_s);
          years = max (end_year - int_of_digits start) 0
      in add_ranges current_year ms (total_years + of_int years))"

text \<open>The loop over the experience entries (lines 28 to 38).\<close>

fun add_entries :: "int \<Rightarrow> string list \<Rightarrow> rat \<Rightarrow> rat" where
  "add_entries current_year [] total_years = total_years"
| "add_entries current_year (exp_entry # exps) total_years =
     (case search_years exp_entry of
        Some g \<Rightarrow> add_entries current_year exps (total_years + float_of_group g)
      | None \<Rightarrow>
          (let date_match = findall_ranges (lower exp_entry)
           in if date_match \<noteq> []
              then add_entries current_year exps (add_ranges current_year date_match total_years)
              else add_entries current_year exps total_years))"

definition compute_experience_score :: "int \<Rightarrow> string list \<Rightarrow> rat \<Rightarrow> rat" where
  "compute_experience_score current_year resume_experience required_exp =
     (let total_years = add_entries current_year resume_experience 0
      in if required_exp \<le> 0 then (if total_years > 0 then 30 else 0)
         else if total_years > 0 then min (total_years / required_exp) 1 * 30 else 0)"

subsection \<open>Education score\<close>

text \<open>The dictionary \<^verbatim>\<open>degree_levels\<close>, in its order of insertion.\<close>

definition degree_levels :: "(string \<times> int) list" where
  "degree_levels =
     [(''associate'', 1), (''diploma'', 1),
      (''bachelor'', 2), (''bs'', 2), (''ba'', 2),
      (''master'', 3), (''ms'', 3), (''mba'', 3),
      (''phd'', 4), (''doctorate'', 4)]"

text \<open>
  \<^verbatim>\<open>max((degree_levels.get(kw, 0) for kw in degree_levels if kw in edu), default=0)\<close>
\<close>

definition degree_level :: "string \<Rightarrow> int" where
  "degree_level edu =
     (let ls = map (\<lambda>kw. case map_of degree_levels kw of Some l \<Rightarrow> l | None \<Rightarrow> 0)
                 (filter (\<lambda>kw. sublist kw edu) (map fst degree_levels))
      in if ls = [] then 0 else Max (set ls))"

text \<open>
  The inner loop over the required entries (lines 61 to 65): whether it reaches
  \<^verbatim>\<open>matches += 1; break\<close>.
\<close>

fun edu_covers_any :: "int \<Rightarrow> string list \<Rightarrow> bool" where
  "edu_covers_any r_level [] = False"
| "edu_covers_any r_level (j_edu # js) =
     (let j_level = degree_level j_edu
      in if r_level \<ge> j_level \<and> j_level > 0 then True
         else edu_covers_any r_level js)"

text \<open>The outer loop over the resume entries (lines 59 to 65).\<close>

fun edu_matches :: "string list \<Rightarrow> string list \<Rightarrow> int \<Rightarrow> int" where
  "edu_matches [] required_edu matches = matches"
| "edu_matches (r_edu # rs) required_edu matches =
     (let r_level = degree_level r_edu
      in edu_matches rs required_edu
           (if edu_covers_any r_level required_edu then matches + 1 else matches))"

definition compute_education_similarity :: "string list \<Rightarrow> string list \<Rightarrow> rat" where
  "compute_education_similarity resume_edu required_edu =
     (let rs = py_set resume_edu;
          js = py_set required_edu
      in if js = [] then 0
         else
           let matches = edu_matches rs js 0;
               score = matches * 10;
               max_possible = int (length js) * 10
           in if max_possible > 0 then min (of_int score / of_int max_possible) 1 * 15
              else 0)"

subsection \<open>Certification score\<close>

definition generic_cert_keywords :: "string list" where
  "generic_cert_keywords = [''certified'', ''certification'', ''license'', ''credential'']"

text \<open>The inner loop (lines 80 to 84): whether it reaches \<^verbatim>\<open>matches += 1; break\<close>.\<close>

fun cert_matches_any :: "string \<Rightarrow> string list \<Rightarrow> bool" where
  "cert_matches_any r_cert [] = False"
| "cert_matches_any r_cert (j_cert # js) =
     (if sublist r_cert j_cert \<or> sublist j_cert r_cert
         \<or> list_ex (\<lambda>kw. sublist kw r_cert) generic_cert_keywords
      then True
      else cert_matches_any r_cert js)"

text \<open>The outer loop over the resume entries (lines 79 to 84).\<close>

fun cert_matches :: "string list \<Rightarrow> string list \<Rightarrow> int \<Rightarrow> int" where
  "cert_matches [] required_certs matches = matches"
| "cert_matches (r_cert # rs) required_certs matches =
     cert_matches rs required_certs
       (if cert_matches_any r_cert required_certs then matches + 1 else matches)"

definition compute_certification_similarity :: "string list \<Rightarrow> string list \<Rightarrow> rat" where
  "compute_certification_similarity resume_certs required_certs =
     (let rs = py_set resume_certs;
          js = py_set required_certs
      in if js = [] then 0
         else
           let matches = cert_matches rs js 0;
               score = matches * 5;
               max_possible = int (length js) * 5
           in if max_possible > 0 then min (of_int score / of_int max_possible) 1 * 5
              else 0)"

subsection \<open>Dictionaries\<close>

text \<open>
  A resume is a dictionary from keys to lists of strings.  The code reads the four
  keys \<^verbatim>\<open>skills\<close>, \<^verbatim>\<open>experience\<close>, \<^verbatim>\<open>education\<close> and \<^verbatim>\<open>certifications\<close> and never the
  value of another key, so the values of the other keys (contact fields and the
  like) are lists of strings here as well; only their presence matters.

  The job dictionary has one field per key that the code reads; \<open>None\<close> is a key
  that the dictionary does not have.
\<close>

type_synonym resume_dict = "string \<rightharpoonup> string list"

record job_dict =
  required_skills :: "string list option"
  required_experience :: "rat option"
  required_education :: "string list option"
  required_certifications :: "string list option"

datatype error = KeyError string

text \<open>\<^verbatim>\<open>d.get(k, default)\<close>\<close>

definition get_default :: "'a option \<Rightarrow> 'a \<Rightarrow> 'a" where
  "get_default v default_v = (case v of None \<Rightarrow> default_v | Some x \<Rightarrow> x)"

text \<open>\<^verbatim>\<open>d[k]\<close>, which raises \<^verbatim>\<open>KeyError(k)\<close> when the key is missing.\<close>

definition subscript :: "'a option \<Rightarrow> string \<Rightarrow> error + 'a" where
  "subscript v k = (case v of None \<Rightarrow> Inl (KeyError k) | Some x \<Rightarrow> Inr x)"

text \<open>Sequencing of two steps the first of which may raise.\<close>

definition bindE :: "error + 'a \<Rightarrow> ('a \<Rightarrow> error + 'b) \<Rightarrow> error + 'b" where
  "bindE m f = (case m of Inl e \<Rightarrow> Inl e | Inr x \<Rightarrow> f x)"

subsection \<open>ATS score\<close>

text \<open>The separators of \<^verbatim>\<open>[,\s;]+\<close>.\<close>

definition is_sep :: "char \<Rightarrow> bool" where
  "is_sep c = (c = CHR '','' \<or> isspace c \<or> c = CHR '';'')"

text \<open>
  \<^verbatim>\<open>re.split(r'[,\s;]+', text)\<close>: the pieces between the maximal runs of separators.
  \<open>in_run\<close> says that the last character read was a separator, \<open>cur\<close> is the piece
  read so far.  A text that starts or ends with a separator has an empty first or
  last piece, and the empty text has the one piece \<^verbatim>\<open>''\<close>.
\<close>

fun split_pieces :: "bool \<Rightarrow> string \<Rightarrow> string \<Rightarrow> string list" where
  "split_pieces in_run cur [] = [cur]"
| "split_pieces in_run cur (c # cs) =
     (if is_sep c
      then (if in_run then split_pieces True [] cs else cur # split_pieces True [] cs)
      else split_pieces False (cur @ [c]) cs)"

definition re_split :: "string \<Rightarrow> string list" where
  "re_split s = split_pieces False [] s"

text \<open>The keyword coverage (lines 97 to 100), from the two lower-cased texts.\<close>

definition keyword_coverage :: "string \<Rightarrow> string \<Rightarrow> rat" where
  "keyword_coverage resume_text job_text =
     (let job_keywords = remdups (re_split job_text);
          resume_keywords = remdups (re_split resume_text);
          keyword_matches = length (filter (\<lambda>k. k \<in> set resume_keywords) job_keywords)
      in if job_keywords \<noteq> []
         then min (of_nat keyword_matches / of_nat (length job_keywords)) 1 * 10
         else 0)"

text \<open>The section presence (lines 103 to 110).\<close>

definition section_presence ::
  "string list \<Rightarrow> string list \<Rightarrow> string list \<Rightarrow> string list \<Rightarrow> rat" where
  "section_presence skills experience education certifications =
     (if skills \<noteq> [] then 2 else 0) + (if experience \<noteq> [] then 2 else 0)
     + (if education \<noteq> [] then 2 else 0) + (if certifications \<noteq> [] then 2 else 0)"

text \<open>The length bonus (lines 113 and 114).\<close>

definition length_bonus :: "string \<Rightarrow> rat" where
  "length_bonus resume_text = min (of_nat (length resume_text) / 200) 4"

text \<open>The value of \<^verbatim>\<open>ats_score\<close> before the cap of line 116.\<close>

definition ats_uncapped ::
  "string list \<Rightarrow> string list \<Rightarrow> string list \<Rightarrow> string list \<Rightarrow>
   string list \<Rightarrow> string list \<Rightarrow> string list \<Rightarrow> rat" where
  "ats_uncapped skills experience education certifications req_skills req_edu req_certs =
     (let resume_text = lower (join_space (skills @ experience @ education @ certifications));
          job_text = lower (join_space (req_skills @ req_edu @ req_certs))
      in 0 + keyword_coverage resume_text job_text
           + section_presence skills experience education certifications
           + length_bonus resume_text)"

definition compute_ats_score :: "resume_dict \<Rightarrow> job_dict \<Rightarrow> error + rat" where
  "compute_ats_score resume job_data =
     bindE (subscript (resume ''skills'') ''skills'') (\<lambda>skills.
     bindE (subscript (resume ''experience'') ''experience'') (\<lambda>experience.
     bindE (subscript (resume ''education'') ''education'') (\<lambda>education.
     bindE (subscript (resume ''certifications'') ''certifications'') (\<lambda>certifications.
     bindE (subscript (required_skills job_data) ''required_skills'') (\<lambda>req_skills.
     bindE (subscript (required_education job_data) ''required_education'') (\<lambda>req_edu.
     bindE (subscript (required_certifications job_data) ''required_certifications'')
       (\<lambda>req_certs.
     Inr (min (ats_uncapped skills experience education certifications
                 req_skills req_edu req_certs) 20))))))))"

subsection \<open>Ranking\<close>

text \<open>
  \<^verbatim>\<open>round(x, 1)\<close>: the nearest tenth, a value halfway between two tenths going to
  the even one.
\<close>

definition round_half_even :: "rat \<Rightarrow> int" where
  "round_half_even x =
     (let f = \<lfloor>x\<rfloor>; d = x - of_int f
      in if d < 1 / 2 then f
         else if d > 1 / 2 then f + 1
         else if even f then f else f + 1)"

definition round1 :: "rat \<Rightarrow> rat" where
  "round1 x = of_int (round_half_even (x * 10)) / 10"

record scored_candidate =
  score :: rat
  ats_score :: rat
  resume :: resume_dict

record ranked_candidate = scored_candidate +
  rank :: nat

text \<open>The dictionary built in lines 123 to 128.\<close>

definition four_fields :: "resume_dict \<Rightarrow> resume_dict" where
  "four_fields r =
     [''skills'' \<mapsto> get_default (r ''skills'') [],
      ''experience'' \<mapsto> get_default (r ''experience'') [],
      ''education'' \<mapsto> get_default (r ''education'') [],
      ''certifications'' \<mapsto> get_default (r ''certifications'') []]"

text \<open>The sum of line 136, for the dictionary built in lines 123 to 128.\<close>

definition total_score :: "int \<Rightarrow> job_dict \<Rightarrow> resume_dict \<Rightarrow> error + rat \<times> rat" where
  "total_score current_year job_data resume_d =
     bindE (subscript (resume_d ''skills'') ''skills'') (\<lambda>skills.
       let skills_score =
             compute_skill_similarity skills (get_default (required_skills job_data) [])
       in
     bindE (subscript (resume_d ''experience'') ''experience'') (\<lambda>experience.
       let exp_score =
             compute_experience_score current_year experience
               (get_default (required_experience job_data) 0)
       in
     bindE (subscript (resume_d ''education'') ''education'') (\<lambda>education.
       let edu_score =
             compute_education_similarity education
               (get_default (required_education job_data) [])
       in
     bindE (subscript (resume_d ''certifications'') ''certifications'') (\<lambda>certifications.
       let cert_score =
             compute_certification_similarity certifications
               (get_default (required_certifications job_data) [])
       in
     bindE (compute_ats_score resume_d job_data) (\<lambda>ats.
       Inr (skills_score + exp_score + edu_score + cert_score + ats, ats))))))"

text \<open>One round of the loop of lines 122 to 144: the candidate that is appended.\<close>

definition score_resume :: "int \<Rightarrow> job_dict \<Rightarrow> resume_dict \<Rightarrow> error + scored_candidate" where
  "score_resume current_year job_data r =
     (let resume_d = four_fields r
      in bindE (total_score current_year job_data resume_d) (\<lambda>(total, ats).
           Inr \<lparr>score = round1 total, ats_score = round1 ats, resume = resume_d\<rparr>))"

fun score_all ::
  "int \<Rightarrow> job_dict \<Rightarrow> resume_dict list \<Rightarrow> scored_candidate list \<Rightarrow>
   error + scored_candidate list" where
  "score_all current_year job_data [] scored_candidates = Inr scored_candidates"
| "score_all current_year job_data (r # rs) scored_candidates =
     bindE (score_resume current_year job_data r) (\<lambda>c.
       score_all current_year job_data rs (scored_candidates @ [c]))"

text \<open>
  \<^verbatim>\<open>xs.sort(key=lambda x: x["score"], reverse=True)\<close>.  Python's sort is stable, and
  with \<^verbatim>\<open>reverse=True\<close> elements of equal key still keep their order; this is the
  stable insertion sort on the negated key.
\<close>

definition sort_by_score_desc :: "scored_candidate list \<Rightarrow> scored_candidate list" where
  "sort_by_score_desc cs = sort_key (\<lambda>c. - score c) cs"

text \<open>The loop of lines 148 to 150, \<open>n\<close> being the next rank.\<close>

fun assign_ranks :: "nat \<Rightarrow> scored_candidate list \<Rightarrow> ranked_candidate list" where
  "assign_ranks n [] = []"
| "assign_ranks n (c # cs) =
     \<lparr>score = score c, ats_score = ats_score c, resume = resume c, rank = n\<rparr>
       # assign_ranks (Suc n) cs"

definition rank_candidates ::
  "int \<Rightarrow> resume_dict list \<Rightarrow> job_dict \<Rightarrow> error + ranked_candidate list" where
  "rank_candidates current_year resume_data_list job_data =
     bindE (score_all current_year job_data resume_data_list []) (\<lambda>scored_candidates.
       Inr (assign_ranks 1 (sort_by_score_desc scored_candidates)))"

subsection \<open>Notions used in the statements\<close>

text \<open>
  The job dictionary has the three keys that \<open>compute_ats_score\<close> reads with a
  subscript.
\<close>

definition job_complete :: "job_dict \<Rightarrow> bool" where
  "job_complete job_data =
     (required_skills job_data \<noteq> None \<and> required_education job_data \<noteq> None
      \<and> required_certifications job_data \<noteq> None)"

text \<open>A field of a resume as \<open>rank_candidates\<close> reads it: \<^verbatim>\<open>resume.get(k, [])\<close>.\<close>

definition field :: "resume_dict \<Rightarrow> string \<Rightarrow> string list" where
  "field r k = get_default (r k) []"

text \<open>
  The five sub-scores of a resume, with the arguments that \<open>rank_candidates\<close>
  passes.  The ATS sub-score is written for a job dictionary with the three list
  keys, the only case in which \<open>compute_ats_score\<close> returns.
\<close>

definition skill_sub_score :: "job_dict \<Rightarrow> resume_dict \<Rightarrow> rat" where
  "skill_sub_score job_data r =
     compute_skill_similarity (field r ''skills'') (get_default (required_skills job_data) [])"

definition experience_sub_score :: "int \<Rightarrow> job_dict \<Rightarrow> resume_dict \<Rightarrow> rat" where
  "experience_sub_score current_year job_data r =
     compute_experience_score current_year (field r ''experience'')
       (get_default (required_experience job_data) 0)"

definition education_sub_score :: "job_dict \<Rightarrow> resume_dict \<Rightarrow> rat" where
  "education_sub_score job_data r =
     compute_education_similarity (field r ''education'')
       (get_default (required_education job_data) [])"

definition certification_sub_score :: "job_dict \<Rightarrow> resume_dict \<Rightarrow> rat" where
  "certification_sub_score job_data r =
     compute_certification_similarity (field r ''certifications'')
       (get_default (required_certifications job_data) [])"

definition ats_sub_score :: "job_dict \<Rightarrow> resume_dict \<Rightarrow> rat" where
  "ats_sub_score job_data r =
     min (ats_uncapped (field r ''skills'') (field r ''experience'') (field r ''education'')
            (field r ''certifications'')
            (get_default (required_skills job_data) [])
            (get_default (required_education job_data) [])
            (get_default (required_certifications job_data) [])) 20"

definition exact_sum :: "int \<Rightarrow> job_dict \<Rightarrow> resume_dict \<Rightarrow> rat" where
  "exact_sum current_year job_data r =
     skill_sub_score job_data r + experience_sub_score current_year job_data r
     + education_sub_score job_data r + certification_sub_score job_data r
     + ats_sub_score job_data r"

text \<open>The candidate that the loop of \<open>rank_candidates\<close> appends for a resume.\<close>

definition candidate_of :: "int \<Rightarrow> job_dict \<Rightarrow> resume_dict \<Rightarrow> scored_candidate" where
  "candidate_of current_year job_data r =
     \<lparr>score = round1 (exact_sum current_year job_data r),
      ats_score = round1 (ats_sub_score job_data r),
      resume = four_fields r\<rparr>"

text \<open>A ranked candidate without its rank.\<close>

definition unranked :: "ranked_candidate \<Rightarrow> scored_candidate" where
  "unranked c = \<lparr>score = score c, ats_score = ats_score c, resume = resume c\<rparr>"

text \<open>
  The education score as the specification words it: the requirements that some
  resume entry covers are counted, each once.
\<close>

definition education_score_by_requirements :: "string list \<Rightarrow> string list \<Rightarrow> rat" where
  "education_score_by_requirements resume_edu required_edu =
     (let rs = py_set resume_edu;
          js = py_set required_edu;
          matches = length (filter (\<lambda>j. list_ex (\<lambda>r. degree_level r \<ge> degree_level j
                                                     \<and> degree_level j > 0) rs) js)
      in if js = [] then 0
         else min (of_nat (matches * 10) / of_nat (length js * 10)) 1 * 15)"

text \<open>
  The certification score as the specification words it: the required
  certifications that some resume entry matches are counted, each once.
\<close>

definition certification_score_by_requirements :: "string list \<Rightarrow> string list \<Rightarrow> rat" where
  "certification_score_by_requirements resume_certs required_certs =
     (let rs = py_set resume_certs;
          js = py_set required_certs;
          matches = length (filter (\<lambda>j. list_ex (\<lambda>r. sublist r j \<or> sublist j r
                                 \<or> list_ex (\<lambda>kw. sublist kw r) generic_cert_keywords) rs) js)
      in if js = [] then 0
         else min (of_nat (matches * 5) / of_nat (length js * 5)) 1 * 5)"

subsection \<open>Inputs of the examples\<close>

text \<open>
  A job with one requirement of each kind and a resume that meets all of them; a job
  with no requirement; three resumes with nothing but one skill, the first with a
  contact field besides.
\<close>

definition example_job :: job_dict where
  "example_job =
     \<lparr>required_skills = Some [''python''], required_experience = Some 1,
      required_education = Some [''bachelor''], required_certifications = Some [''aws'']\<rparr>"

definition example_resume :: resume_dict where
  "example_resume =
     [''skills'' \<mapsto> [''python''], ''experience'' \<mapsto> [''5 years''],
      ''education'' \<mapsto> [''bachelor''], ''certifications'' \<mapsto> [''aws'']]"

definition empty_job :: job_dict where
  "empty_job =
     \<lparr>required_skills = Some [], required_experience = Some 0,
      required_education = Some [], required_certifications = Some []\<rparr>"

definition short_resume :: resume_dict where
  "short_resume = [''skills'' \<mapsto> [''aaaaaaaaa''], ''email'' \<mapsto> [''a@b.c'']]"

definition other_short_resume :: resume_dict where
  "other_short_resume = [''skills'' \<mapsto> [''bbbbbbbbb'']]"

definition longer_resume :: resume_dict where
  "longer_resume = [''skills'' \<mapsto> [''aaaaaaaaaaa'']]"


section \<open>Properties\<close>

subsection \<open>Sets as duplicate-free lists\<close>

lemma distinct_py_set: "distinct (py_set xs)"
  by (simp add: py_set_def)

lemma length_filter_member:
  "distinct xs \<Longrightarrow> length (filter (\<lambda>x. x \<in> A) xs) = card (set xs \<inter> A)"
  by (simp add: distinct_length_filter Int_commute Collect_mem_eq)

lemma length_filter_card:
  "distinct xs \<Longrightarrow> length (filter P xs) = card {x \<in> set xs. P x}"
  by (simp add: distinct_length_filter Int_def conj_commute)

lemma length_filter_product:
  assumes "distinct xs" "distinct ys"
  shows "length (filter P (List.product xs ys))
         = card {(x, y). x \<in> set xs \<and> y \<in> set ys \<and> P (x, y)}"
proof -
  have "distinct (List.product xs ys)"
    using assms by (rule distinct_product)
  then have "length (filter P (List.product xs ys))
             = card ({p. P p} \<inter> set (List.product xs ys))"
    by (rule distinct_length_filter)
  also have "{p. P p} \<inter> set (List.product xs ys)
             = {(x, y). x \<in> set xs \<and> y \<in> set ys \<and> P (x, y)}"
    by auto
  finally show ?thesis .
qed

text \<open>
  Every common element is a pair of strings one of which contains the other, so
  \<open>partial_matches\<close> is never negative.
\<close>

lemma exact_le_pairs:
  assumes "finite R" "finite J"
  shows "card (R \<inter> J) \<le> card {(r, j). r \<in> R \<and> j \<in> J \<and> (sublist r j \<or> sublist j r)}"
proof -
  have inj: "inj_on (\<lambda>x. (x, x)) (R \<inter> J)"
    by (rule inj_onI) simp
  have sub: "(\<lambda>x. (x, x)) ` (R \<inter> J)
             \<subseteq> {(r, j). r \<in> R \<and> j \<in> J \<and> (sublist r j \<or> sublist j r)}"
    by auto
  have fin: "finite {(r, j). r \<in> R \<and> j \<in> J \<and> (sublist r j \<or> sublist j r)}"
    by (rule finite_subset[of _ "R \<times> J"]) (use assms in auto)
  show ?thesis
    using card_inj_on_le[OF inj sub fin] .
qed

lemma skill_counts:
  "length (filter (\<lambda>r. r \<in> set (py_set js)) (py_set rs))
     = card (set (py_set rs) \<inter> set (py_set js))"
  "length (filter (\<lambda>(r, j). sublist r j \<or> sublist j r) (List.product (py_set rs) (py_set js)))
     = card {(r, j). r \<in> set (py_set rs) \<and> j \<in> set (py_set js)
                      \<and> (sublist r j \<or> sublist j r)}"
  "length (py_set js) = card (set (py_set js))"
proof -
  show "length (filter (\<lambda>r. r \<in> set (py_set js)) (py_set rs))
          = card (set (py_set rs) \<inter> set (py_set js))"
    by (rule length_filter_member[OF distinct_py_set])
  show "length (filter (\<lambda>(r, j). sublist r j \<or> sublist j r)
                  (List.product (py_set rs) (py_set js)))
          = card {(r, j). r \<in> set (py_set rs) \<and> j \<in> set (py_set js)
                           \<and> (sublist r j \<or> sublist j r)}"
    using length_filter_product[OF distinct_py_set distinct_py_set,
            of "\<lambda>(r, j). sublist r j \<or> sublist j r" rs js]
    by simp
  show "length (py_set js) = card (set (py_set js))"
    by (simp add: distinct_card[OF distinct_py_set])
qed

subsection \<open>The loops as counts and sums\<close>



lemma edu_covers_any_iff:
  "edu_covers_any r_level js
     \<longleftrightarrow> (\<exists>j\<in>set js. degree_level j \<le> r_level \<and> 0 < degree_level j)"
  by (induction js) (auto simp: Let_def)

lemma edu_matches_count:
  "edu_matches rs js m
     = m + int (length (filter (\<lambda>r. edu_covers_any (degree_level r) js) rs))"
  by (induction rs arbitrary: m) (auto simp: Let_def)

lemma cert_matches_any_iff:
  "cert_matches_any r js \<longleftrightarrow>
     (\<exists>j\<in>set js. sublist r j \<or> sublist j r
        \<or> (\<exists>kw\<in>set generic_cert_keywords. sublist kw r))"
  by (induction js) (auto simp: list_ex_iff)

lemma cert_matches_count:
  "cert_matches rs js m = m + int (length (filter (\<lambda>r. cert_matches_any r js) rs))"
  by (induction rs arbitrary: m) auto

subsection \<open>What the two patterns match\<close>

text \<open>
  A match of \<open>match_years\<close> is a match of the pattern at the head of the text:
  digits, an optional dot, digits, white space and the word year in any case;
  group 1 is the part before the white space.
\<close>

lemma match_years_shape:
  assumes "match_years s = Some g"
  shows "\<exists>d1 dot d2 ws kw rest.
           s = d1 @ dot @ d2 @ ws @ kw @ rest \<and> g = d1 @ dot @ d2
           \<and> d1 \<noteq> [] \<and> list_all isdigit d1 \<and> (dot = [] \<or> dot = ''.'')
           \<and> list_all isdigit d2 \<and> list_all isspace ws \<and> lower kw = ''year''"
proof -
  define d1 where "d1 = takeWhile isdigit s"
  define r1 where "r1 = dropWhile isdigit s"
  define dot where "dot = (if r1 \<noteq> [] \<and> hd r1 = CHR ''.'' then ''.'' else [])"
  define r2 where "r2 = drop (length dot) r1"
  define d2 where "d2 = takeWhile isdigit r2"
  define ws where "ws = takeWhile isspace (dropWhile isdigit r2)"
  define r3 where "r3 = dropWhile isspace (dropWhile isdigit r2)"
  have m: "match_years s = (if d1 \<noteq> [] \<and> ci_prefix ''year'' r3 then Some (d1 @ dot @ d2) else None)"
    unfolding match_years_def Let_def d1_def r1_def dot_def r2_def d2_def r3_def ..
  from assms have g: "g = d1 @ dot @ d2" and ne: "d1 \<noteq> []" and kw: "ci_prefix ''year'' r3"
    unfolding m by (simp_all split: if_splits)
  have s1: "s = d1 @ r1" by (simp add: d1_def r1_def)
  have s2: "r1 = dot @ r2"
    by (cases r1) (simp_all add: dot_def r2_def)
  have s3: "r2 = d2 @ ws @ r3" by (simp add: d2_def ws_def r3_def)
  have low: "lower ''year'' = ''year''" by code_simp
  have len: "length ''year'' = 4" by simp
  from kw have k: "lower (take 4 r3) = ''year''"
    unfolding ci_prefix_def len low by (rule conjunct2)
  have e: "s = d1 @ dot @ d2 @ ws @ take 4 r3 @ drop 4 r3"
    by (simp only: append_take_drop_id flip: s3 s2 s1)
  have c: "list_all isdigit d1" "list_all isdigit d2" "list_all isspace ws"
    by (auto simp: d1_def d2_def ws_def list_all_iff dest: set_takeWhileD)
  have d: "dot = [] \<or> dot = ''.''" by (simp add: dot_def)
  have "s = d1 @ dot @ d2 @ ws @ take 4 r3 @ drop 4 r3 \<and> g = d1 @ dot @ d2
           \<and> d1 \<noteq> [] \<and> list_all isdigit d1 \<and> (dot = [] \<or> dot = ''.'')
           \<and> list_all isdigit d2 \<and> list_all isspace ws \<and> lower (take 4 r3) = ''year''"
    by (intro conjI e g ne c d k)
  then show ?thesis by (intro exI)
qed

text \<open>
  A match of \<open>match_range\<close> is a match of the pattern at the head of the text: four
  digits, white space, a hyphen, white space, and then the word present or
  current or four digits.
\<close>

lemma match_range_shape:
  assumes "match_range s = Some (a, b, rest)"
  shows "\<exists>w1 w2. s = a @ w1 @ ''-'' @ w2 @ b @ rest
           \<and> length a = 4 \<and> list_all isdigit a \<and> list_all isspace w1 \<and> list_all isspace w2
           \<and> (lower b = ''present'' \<or> lower b = ''current''
               \<or> (length b = 4 \<and> list_all isdigit b))"
proof -
  define r0 where "r0 = drop 4 s"
  define w1 where "w1 = takeWhile isspace r0"
  define r1 where "r1 = dropWhile isspace r0"
  define w2 where "w2 = takeWhile isspace (drop 1 r1)"
  define r2 where "r2 = dropWhile isspace (drop 1 r1)"
  have low: "lower ''present'' = ''present''" "lower ''current'' = ''current''"
    by code_simp+
  have len: "length ''present'' = 7" "length ''current'' = 7" by simp_all
  have pres: "lower (take 7 r2) = ''present''" if "ci_prefix ''present'' r2"
    using that unfolding ci_prefix_def len low by simp
  have curr: "lower (take 7 r2) = ''current''" if "ci_prefix ''current'' r2"
    using that unfolding ci_prefix_def len low by simp
  have m: "match_range s =
     (if length (take 4 s) = 4 \<and> list_all isdigit (take 4 s) \<and> r1 \<noteq> [] \<and> hd r1 = CHR ''-''
      then if ci_prefix ''present'' r2 then Some (take 4 s, take 7 r2, drop 7 r2)
           else if ci_prefix ''current'' r2 then Some (take 4 s, take 7 r2, drop 7 r2)
           else if length (take 4 r2) = 4 \<and> list_all isdigit (take 4 r2)
                then Some (take 4 s, take 4 r2, drop 4 r2)
                else None
      else None)"
    by (simp add: match_range_def Let_def r0_def r1_def r2_def)
  from assms have a: "a = take 4 s" "length a = 4" "list_all isdigit a"
    and h: "r1 \<noteq> []" "hd r1 = CHR ''-''"
    unfolding m by (auto split: if_splits)
  from assms have b: "(b = take 7 r2 \<and> rest = drop 7 r2
                        \<and> (lower b = ''present'' \<or> lower b = ''current''))
       \<or> (b = take 4 r2 \<and> rest = drop 4 r2 \<and> length b = 4 \<and> list_all isdigit b)"
    unfolding m using pres curr by (auto split: if_splits)
  have s1: "s = a @ r0" by (simp add: a r0_def)
  have s2: "r0 = w1 @ r1" by (simp add: w1_def r1_def)
  have s3: "r1 = ''-'' @ drop 1 r1" using h by (cases r1) auto
  have s4: "drop 1 r1 = w2 @ r2" by (simp add: w2_def r2_def)
  have s5: "r2 = b @ rest" using b by auto
  have e: "s = a @ w1 @ ''-'' @ w2 @ b @ rest"
    by (simp only: append_assoc flip: s5 s4 s3 s2 s1)
  have c: "list_all isspace w1" "list_all isspace w2"
    by (auto simp: w1_def w2_def list_all_iff dest: set_takeWhileD)
  have f: "lower b = ''present'' \<or> lower b = ''current''
               \<or> (length b = 4 \<and> list_all isdigit b)"
    using b by blast
  have "s = a @ w1 @ ''-'' @ w2 @ b @ rest
           \<and> length a = 4 \<and> list_all isdigit a \<and> list_all isspace w1 \<and> list_all isspace w2
           \<and> (lower b = ''present'' \<or> lower b = ''current''
               \<or> (length b = 4 \<and> list_all isdigit b))"
    by (intro conjI e a(2) a(3) c f)
  then show ?thesis by (intro exI)
qed

subsection \<open>The skill score\<close>


subsection \<open>The experience score\<close>


subsection \<open>The education score\<close>

text \<open>
  Claim C2, as the specification states it, fails: the code counts resume
  entries, not requirements.  A resume with the one entry phd against the two
  requirements bachelor and master scores 7.5, where counting the covered
  requirements gives 15.
\<close>

theorem education_score_counterexample:
  "compute_education_similarity [''phd''] [''bachelor'', ''master''] = 15 / 2
   \<and> education_score_by_requirements [''phd''] [''bachelor'', ''master''] = 15"
  by code_simp

text \<open>
  Claim C2, amended.  With both lists normalised as the code normalises them, the
  education score is \<open>min (matches * 10 / (|required| * 10)) 1 * 15\<close> when the
  required set is not empty and 0 when it is, where \<open>matches\<close> is the number of
  resume entries that cover some requirement, each resume entry counted once; a
  resume entry covers a requirement when its level is at least the requirement's
  level and the requirement's level is positive.
\<close>

theorem education_score_formula:
  "compute_education_similarity resume_edu required_edu =
     (let R = set (py_set resume_edu);
          J = set (py_set required_edu);
          matches = card {r \<in> R. \<exists>j\<in>J. degree_level j \<le> degree_level r
                                         \<and> 0 < degree_level j}
      in if J = {} then 0
         else min (of_nat (matches * 10) / of_nat (card J * 10)) 1 * 15)"
proof -
  let ?rs = "py_set resume_edu" and ?js = "py_set required_edu"
  have c: "length ?js = card (set ?js)"
    by (simp add: distinct_card[OF distinct_py_set])
  have pos: "?js \<noteq> [] \<Longrightarrow> 0 < card (set ?js)"
    by (simp add: card_gt_0_iff)
  have m: "edu_matches ?rs ?js 0 =
        int (card {r \<in> set ?rs. \<exists>j\<in>set ?js. degree_level j \<le> degree_level r
                                                \<and> 0 < degree_level j})"
    by (simp add: edu_matches_count length_filter_card[OF distinct_py_set]
          edu_covers_any_iff)
  show ?thesis
    unfolding compute_education_similarity_def Let_def m c
    using pos by simp
qed

subsection \<open>The certification score\<close>

text \<open>
  Claim C3, as the specification states it, fails: the code counts resume
  entries, not required certifications.  A resume with the one entry aws solutions
  architect against the two requirements aws and architect scores 2.5, where
  counting the matched requirements gives 5.
\<close>

theorem certification_score_counterexample:
  "compute_certification_similarity [''aws solutions architect''] [''aws'', ''architect'']
     = 5 / 2
   \<and> certification_score_by_requirements [''aws solutions architect'']
       [''aws'', ''architect''] = 5"
  by code_simp

text \<open>
  Claim C3, amended.  With both lists normalised as the code normalises them, the
  certification score is \<open>min (matches * 5 / (|required| * 5)) 1 * 5\<close> when the
  required set is not empty and 0 when it is, where \<open>matches\<close> is the number of
  resume entries that match some required certification, each resume entry counted
  once; a resume entry matches a required certification when one of the two
  strings contains the other, or when the resume entry contains one of the words
  certified, certification, license and credential.
\<close>

theorem certification_score_formula:
  "compute_certification_similarity resume_certs required_certs =
     (let R = set (py_set resume_certs);
          J = set (py_set required_certs);
          matches = card {r \<in> R. \<exists>j\<in>J. sublist r j \<or> sublist j r
                            \<or> (\<exists>kw\<in>set generic_cert_keywords. sublist kw r)}
      in if J = {} then 0
         else min (of_nat (matches * 5) / of_nat (card J * 5)) 1 * 5)"
proof -
  let ?rs = "py_set resume_certs" and ?js = "py_set required_certs"
  have c: "length ?js = card (set ?js)"
    by (simp add: distinct_card[OF distinct_py_set])
  have pos: "?js \<noteq> [] \<Longrightarrow> 0 < card (set ?js)"
    by (simp add: card_gt_0_iff)
  have m: "cert_matches ?rs ?js 0 =
        int (card {r \<in> set ?rs. \<exists>j\<in>set ?js. sublist r j \<or> sublist j r
                            \<or> (\<exists>kw\<in>set generic_cert_keywords. sublist kw r)})"
    by (simp add: cert_matches_count length_filter_card[OF distinct_py_set]
          cert_matches_any_iff)
  show ?thesis
    unfolding compute_certification_similarity_def Let_def m c
    using pos by simp
qed


subsection \<open>Dictionaries and the shape of the ranking\<close>

lemma bindE_simps:
  "bindE (Inl e) f = Inl e"
  "bindE (Inr x) f = f x"
  by (simp_all add: bindE_def)

lemma subscript_simps:
  "subscript None k = Inl (KeyError k)"
  "subscript (Some x) k = Inr x"
  by (simp_all add: subscript_def)

lemma four_fields_apply:
  "four_fields r ''skills'' = Some (field r ''skills'')"
  "four_fields r ''experience'' = Some (field r ''experience'')"
  "four_fields r ''education'' = Some (field r ''education'')"
  "four_fields r ''certifications'' = Some (field r ''certifications'')"
  by (simp_all add: four_fields_def field_def)

lemma four_fields_other:
  "k \<notin> {''skills'', ''experience'', ''education'', ''certifications''} \<Longrightarrow> four_fields r k = None"
  by (simp add: four_fields_def)

lemma dom_four_fields:
  "dom (four_fields r) = {''skills'', ''experience'', ''education'', ''certifications''}"
  by (auto simp: four_fields_def)

lemma compute_ats_score_complete:
  assumes "job_complete job_data"
  shows "compute_ats_score (four_fields r) job_data = Inr (ats_sub_score job_data r)"
proof -
  from assms obtain a b c where
    "required_skills job_data = Some a" "required_education job_data = Some b"
    "required_certifications job_data = Some c"
    by (auto simp: job_complete_def)
  then show ?thesis
    by (simp add: compute_ats_score_def ats_sub_score_def four_fields_apply
          subscript_simps bindE_simps get_default_def)
qed

lemma compute_ats_score_incomplete:
  assumes "\<not> job_complete job_data"
  shows "\<exists>e. compute_ats_score (four_fields r) job_data = Inl e"
  using assms
  by (cases "required_skills job_data"; cases "required_education job_data";
      cases "required_certifications job_data")
     (simp_all add: job_complete_def compute_ats_score_def four_fields_apply
        subscript_simps bindE_simps)

lemma score_resume_complete:
  assumes "job_complete job_data"
  shows "score_resume cy job_data r = Inr (candidate_of cy job_data r)"
  by (simp add: score_resume_def total_score_def Let_def four_fields_apply subscript_simps
        bindE_simps compute_ats_score_complete[OF assms] candidate_of_def exact_sum_def
        skill_sub_score_def experience_sub_score_def education_sub_score_def
        certification_sub_score_def)

lemma score_resume_incomplete:
  assumes "\<not> job_complete job_data"
  shows "\<exists>e. score_resume cy job_data r = Inl e"
proof -
  from compute_ats_score_incomplete[OF assms, of r]
  obtain e where "compute_ats_score (four_fields r) job_data = Inl e" ..
  then show ?thesis
    by (simp add: score_resume_def total_score_def Let_def four_fields_apply subscript_simps
        bindE_simps)
qed

lemma score_all_complete:
  assumes "job_complete job_data"
  shows "score_all cy job_data rs acc = Inr (acc @ map (candidate_of cy job_data) rs)"
  by (induction rs arbitrary: acc)
     (simp_all add: score_resume_complete[OF assms] bindE_simps)

lemma score_all_incomplete:
  assumes "\<not> job_complete job_data" "rs \<noteq> []"
  shows "\<exists>e. score_all cy job_data rs acc = Inl e"
proof (cases rs)
  case Nil
  with assms show ?thesis by simp
next
  case (Cons r rs')
  from score_resume_incomplete[OF assms(1), of cy r]
  obtain e where "score_resume cy job_data r = Inl e" ..
  with Cons show ?thesis by (simp add: bindE_simps)
qed

lemma rank_candidates_returns:
  assumes "rs = [] \<or> job_complete job_data"
  shows "rank_candidates cy rs job_data
         = Inr (assign_ranks 1 (sort_by_score_desc (map (candidate_of cy job_data) rs)))"
proof (cases "job_complete job_data")
  case True
  then show ?thesis
    by (simp add: rank_candidates_def score_all_complete bindE_simps)
next
  case False
  with assms have "rs = []" by simp
  then show ?thesis
    by (simp add: rank_candidates_def bindE_simps)
qed

lemma rank_candidates_Inr:
  assumes "rank_candidates cy rs job_data = Inr out"
  shows "rs = [] \<or> job_complete job_data"
proof (rule ccontr)
  assume "\<not> (rs = [] \<or> job_complete job_data)"
  then have "\<not> job_complete job_data" "rs \<noteq> []" by simp_all
  from score_all_incomplete[OF this, of cy "[]"]
  obtain e where "score_all cy job_data rs [] = Inl e" ..
  with assms show False
    by (simp add: rank_candidates_def bindE_simps)
qed

lemma unranked_assign_ranks: "map unranked (assign_ranks n cs) = cs"
  by (induction cs arbitrary: n) (simp_all add: unranked_def)

lemma rank_assign_ranks: "map rank (assign_ranks n cs) = [n..<n + length cs]"
  by (induction cs arbitrary: n) (simp_all add: upt_rec)

lemma score_assign_ranks: "map score (assign_ranks n cs) = map score cs"
  by (induction cs arbitrary: n) simp_all

lemma resume_assign_ranks: "map resume (assign_ranks n cs) = map resume cs"
  by (induction cs arbitrary: n) simp_all

lemma length_assign_ranks: "length (assign_ranks n cs) = length cs"
  by (induction cs arbitrary: n) simp_all

lemma sorted_desc_sort: "sorted_wrt (\<lambda>a b. a \<ge> b) (map score (sort_by_score_desc cs))"
proof -
  have "sorted (map (\<lambda>c. - score c) (sort_key (\<lambda>c. - score c) cs))"
    by (rule sorted_sort_key)
  then show ?thesis
    by (simp add: sort_by_score_desc_def sorted_map sorted_wrt_map)
qed

lemma stable_sort: 
  "filter (\<lambda>c. score c = v) (sort_by_score_desc cs) = filter (\<lambda>c. score c = v) cs"
  using sort_key_stable[of "\<lambda>c. - score c" "- v" cs]
  by (simp add: sort_by_score_desc_def)

lemma mset_sort_desc: "mset (sort_by_score_desc cs) = mset cs"
  by (simp add: sort_by_score_desc_def)

subsection \<open>Bounds of the sub-scores and of rounding\<close>

lemma lower_append: "lower (a @ b) = lower a @ lower b"
  by (simp add: lower_def)

lemma lower_replicate_a: "lower (replicate n (CHR ''a'')) = replicate n (CHR ''a'')"
proof -
  have "lower_char (CHR ''a'') = CHR ''a''" by code_simp
  then show ?thesis by (simp add: lower_def)
qed

lemma split_head: "re_split (''abcd '' @ rest) = ''abcd'' # split_pieces True [] rest"
proof -
  have s: "\<not> is_sep (CHR ''a'')" "\<not> is_sep (CHR ''b'')" "\<not> is_sep (CHR ''c'')"
    "\<not> is_sep (CHR ''d'')" "is_sep (CHR '' '')"
    by code_simp+
  show ?thesis
    by (simp add: re_split_def s)
qed

lemma big_text:
  "lower (join_space ([''abcd'', replicate 800 (CHR ''a'')] @ [''x''] @ [''x''] @ [''x'']))
     = ''abcd '' @ replicate 800 (CHR ''a'') @ '' x x x''"
proof -
  have l: "lower ''abcd '' = ''abcd ''" "lower '' x x x'' = '' x x x''"
    by code_simp+
  have "join_space ([''abcd'', replicate 800 (CHR ''a'')] @ [''x''] @ [''x''] @ [''x''])
        = ''abcd '' @ replicate 800 (CHR ''a'') @ '' x x x''"
    by simp
  then show ?thesis
    by (simp only: lower_append lower_replicate_a l)
qed

lemma cap_needed:
  "ats_uncapped [''abcd'', replicate 800 (CHR ''a'')] [''x''] [''x''] [''x''] [''abcd''] [] [] = 22"
proof -
  let ?rt = "''abcd '' @ replicate 800 (CHR ''a'') @ '' x x x''"
  have jt: "lower (join_space ([''abcd''] @ [] @ [])) = ''abcd''"
    by code_simp
  have jk: "remdups (re_split ''abcd'') = [''abcd'']"
    by code_simp
  have mem: "''abcd'' \<in> set (remdups (re_split ?rt))"
    by (simp only: set_remdups split_head) simp
  have kc: "keyword_coverage ?rt ''abcd'' = 10"
    unfolding keyword_coverage_def Let_def jk using mem by simp
  have sp: "section_presence [''abcd'', replicate 800 (CHR ''a'')] [''x''] [''x''] [''x''] = 8"
    by (simp add: section_presence_def)
  have lb: "length_bonus ?rt = 4"
    by (simp add: length_bonus_def)
  show ?thesis
    unfolding ats_uncapped_def Let_def big_text jt kc sp lb by simp
qed


lemma capped_bounds:
  fixes q c :: rat
  assumes "0 \<le> q" "0 \<le> c"
  shows "0 \<le> min q 1 * c \<and> min q 1 * c \<le> c"
proof
  have "0 \<le> min q 1" using assms by simp
  then show "0 \<le> min q 1 * c" using assms by simp
  have "min q 1 * c \<le> 1 * c"
    by (rule mult_right_mono) (use assms in simp_all)
  then show "min q 1 * c \<le> c" by simp
qed

lemma capped_int_bounds:
  fixes a b :: int and c :: rat
  assumes "0 \<le> a" "0 \<le> b" "0 \<le> c"
  shows "0 \<le> min (of_int a / of_int b) 1 * c \<and> min (of_int a / of_int b) 1 * c \<le> c"
proof -
  have "(0::rat) \<le> of_int a" "(0::rat) \<le> of_int b"
    using assms by simp_all
  then have "(0::rat) \<le> of_int a / of_int b"
    by (rule divide_nonneg_nonneg)
  then show ?thesis using assms(3) by (rule capped_bounds)
qed

lemma skill_bounds:
  "0 \<le> compute_skill_similarity rs js \<and> compute_skill_similarity rs js \<le> 50"
proof (cases "py_set js = []")
  case True
  then show ?thesis by (simp add: compute_skill_similarity_def)
next
  case False
  let ?R = "set (py_set rs)" and ?J = "set (py_set js)"
  let ?e = "int (card (?R \<inter> ?J))"
  let ?p = "int (card {(r, j). r \<in> ?R \<and> j \<in> ?J \<and> (sublist r j \<or> sublist j r)}) - ?e"
  have pos: "0 < int (card ?J) * 5"
    using False by (simp add: card_gt_0_iff)
  have eq: "compute_skill_similarity rs js
            = min (of_int (?e * 5 + ?p * 2) / of_int (int (card ?J) * 5)) 1 * 50"
    unfolding compute_skill_similarity_def Let_def skill_counts
    by (simp only: False if_False pos if_True)
  have "0 \<le> ?p"
    using exact_le_pairs[of ?R ?J] by simp
  then have "0 \<le> ?e * 5 + ?p * 2" by simp
  moreover have "0 \<le> int (card ?J) * 5" by simp
  ultimately show ?thesis
    unfolding eq by (rule capped_int_bounds) simp
qed

lemma experience_bounds:
  "0 \<le> compute_experience_score cy ex req \<and> compute_experience_score cy ex req \<le> 30"
proof -
  let ?t = "add_entries cy ex 0"
  have "0 \<le> min (?t / req) 1 * 30 \<and> min (?t / req) 1 * 30 \<le> 30" if "0 < ?t" "0 < req"
    by (rule capped_bounds) (use that in simp_all)
  then show ?thesis
    unfolding compute_experience_score_def Let_def
    by (auto simp: not_le)
qed

lemma education_bounds:
  "0 \<le> compute_education_similarity rs js \<and> compute_education_similarity rs js \<le> 15"
proof (cases "py_set js = []")
  case True
  then show ?thesis by (simp add: compute_education_similarity_def)
next
  case False
  let ?m = "edu_matches (py_set rs) (py_set js) 0"
  have pos: "0 < int (length (py_set js)) * 10"
    using False by simp
  have eq: "compute_education_similarity rs js
            = min (of_int (?m * 10) / of_int (int (length (py_set js)) * 10)) 1 * 15"
    unfolding compute_education_similarity_def Let_def
    by (simp only: False if_False pos if_True)
  have "0 \<le> ?m * 10" by (simp add: edu_matches_count)
  moreover have "0 \<le> int (length (py_set js)) * 10" by simp
  ultimately show ?thesis
    unfolding eq by (rule capped_int_bounds) simp
qed

lemma certification_bounds:
  "0 \<le> compute_certification_similarity rs js \<and> compute_certification_similarity rs js \<le> 5"
proof (cases "py_set js = []")
  case True
  then show ?thesis by (simp add: compute_certification_similarity_def)
next
  case False
  let ?m = "cert_matches (py_set rs) (py_set js) 0"
  have pos: "0 < int (length (py_set js)) * 5"
    using False by simp
  have eq: "compute_certification_similarity rs js
            = min (of_int (?m * 5) / of_int (int (length (py_set js)) * 5)) 1 * 5"
    unfolding compute_certification_similarity_def Let_def
    by (simp only: False if_False pos if_True)
  have "0 \<le> ?m * 5" by (simp add: cert_matches_count)
  moreover have "0 \<le> int (length (py_set js)) * 5" by simp
  ultimately show ?thesis
    unfolding eq by (rule capped_int_bounds) simp
qed

lemma keyword_coverage_bounds:
  "0 \<le> keyword_coverage rt jt \<and> keyword_coverage rt jt \<le> 10"
proof (cases "remdups (re_split jt) = []")
  case True
  then show ?thesis by (simp add: keyword_coverage_def)
next
  case False
  let ?jk = "remdups (re_split jt)"
  let ?km = "length (filter (\<lambda>k. k \<in> set (remdups (re_split rt))) ?jk)"
  have eq: "keyword_coverage rt jt = min (of_nat ?km / of_nat (length ?jk)) 1 * 10"
    unfolding keyword_coverage_def Let_def
    by (simp only: False not_False_eq_True if_True)
  have "(0::rat) \<le> of_nat ?km / of_nat (length ?jk)"
    by (rule divide_nonneg_nonneg) simp_all
  then show ?thesis
    unfolding eq by (rule capped_bounds) simp
qed

lemma ats_uncapped_nonneg: "0 \<le> ats_uncapped s e d c rs re rc"
proof -
  have "0 \<le> section_presence s e d c" by (simp add: section_presence_def)
  moreover have "0 \<le> length_bonus t" for t by (simp add: length_bonus_def)
  ultimately show ?thesis
    unfolding ats_uncapped_def Let_def
    using keyword_coverage_bounds by (simp add: add_nonneg_nonneg)
qed

lemma ats_uncapped_le: "ats_uncapped s e d c rs re rc \<le> 22"
proof -
  have "section_presence s e d c \<le> 8" by (simp add: section_presence_def)
  moreover have "length_bonus t \<le> 4" for t by (simp add: length_bonus_def)
  moreover have "keyword_coverage a b \<le> 10" for a b
    using keyword_coverage_bounds by simp
  ultimately have "keyword_coverage a b + section_presence s e d c + length_bonus t \<le> 22"
    for a b t
    using add_mono[OF add_mono[of "keyword_coverage a b" 10 "section_presence s e d c" 8],
            of "length_bonus t" 4]
    by simp
  then show ?thesis
    unfolding ats_uncapped_def Let_def by simp
qed

lemma compute_ats_score_bounds:
  assumes "compute_ats_score resume_d job_data = Inr a"
  shows "0 \<le> a \<and> a \<le> 20"
proof -
  from assms obtain s e d c rs re rc where "a = min (ats_uncapped s e d c rs re rc) 20"
    by (auto simp: compute_ats_score_def bindE_def subscript_def split: option.splits)
  then show ?thesis using ats_uncapped_nonneg[of s e d c rs re rc] by simp
qed

lemma ats_sub_score_bounds: "0 \<le> ats_sub_score job_data r \<and> ats_sub_score job_data r \<le> 20"
  unfolding ats_sub_score_def using ats_uncapped_nonneg by simp

lemma exact_sum_bounds: "0 \<le> exact_sum cy job_data r \<and> exact_sum cy job_data r \<le> 120"
proof -
  have "0 \<le> skill_sub_score job_data r \<and> skill_sub_score job_data r \<le> 50"
    unfolding skill_sub_score_def by (rule skill_bounds)
  moreover have "0 \<le> experience_sub_score cy job_data r \<and> experience_sub_score cy job_data r \<le> 30"
    unfolding experience_sub_score_def by (rule experience_bounds)
  moreover have "0 \<le> education_sub_score job_data r \<and> education_sub_score job_data r \<le> 15"
    unfolding education_sub_score_def by (rule education_bounds)
  moreover have "0 \<le> certification_sub_score job_data r \<and> certification_sub_score job_data r \<le> 5"
    unfolding certification_sub_score_def by (rule certification_bounds)
  moreover note ats_sub_score_bounds[of job_data r]
  ultimately show ?thesis
    unfolding exact_sum_def by linarith
qed

lemma round_half_even_ge: "of_int a \<le> x \<Longrightarrow> a \<le> round_half_even x"
proof -
  assume "of_int a \<le> x"
  then have "a \<le> \<lfloor>x\<rfloor>" by (simp add: le_floor_iff)
  then show ?thesis
    by (simp add: round_half_even_def Let_def)
qed

lemma round_half_even_le: "x \<le> of_int b \<Longrightarrow> round_half_even x \<le> b"
proof -
  assume le: "x \<le> of_int b"
  then have f: "\<lfloor>x\<rfloor> \<le> b" by (metis floor_mono floor_of_int)
  show ?thesis
  proof (cases "\<lfloor>x\<rfloor> = b")
    case True
    then have "x - of_int \<lfloor>x\<rfloor> \<le> 0" using le by simp
    then show ?thesis
      using True by (simp add: round_half_even_def Let_def)
  next
    case False
    with f have "\<lfloor>x\<rfloor> + 1 \<le> b" by simp
    then show ?thesis
      by (simp add: round_half_even_def Let_def)
  qed
qed

lemma round1_bounds:
  assumes "0 \<le> x" "x \<le> 120"
  shows "0 \<le> round1 x \<and> round1 x \<le> 120"
proof -
  have "of_int 0 \<le> x * 10" using assms by simp
  then have a: "0 \<le> round_half_even (x * 10)" by (rule round_half_even_ge)
  have "x * 10 \<le> of_int 1200" using assms by simp
  then have b: "round_half_even (x * 10) \<le> 1200" by (rule round_half_even_le)
  have "(of_int (round_half_even (x * 10)) :: rat) \<le> of_int 1200"
    using b by (simp only: of_int_le_iff)
  then show ?thesis
    using a by (simp add: round1_def)
qed

subsection \<open>The examples evaluated\<close>

lemma example_values:
  "exact_sum 2024 example_job example_resume = 23627 / 200"
  "ats_sub_score example_job example_resume = 3627 / 200"
  unfolding example_job_def example_resume_def by code_simp+

lemma short_values:
  "exact_sum 2024 empty_job short_resume = 409 / 200"
  "ats_sub_score empty_job short_resume = 409 / 200"
  "exact_sum 2024 empty_job other_short_resume = 409 / 200"
  "ats_sub_score empty_job other_short_resume = 409 / 200"
  "exact_sum 2024 empty_job longer_resume = 411 / 200"
  "ats_sub_score empty_job longer_resume = 411 / 200"
  unfolding empty_job_def short_resume_def other_short_resume_def longer_resume_def by code_simp+

lemma round1_values:
  "round1 (23627 / 200) = 1181 / 10"
  "round1 (3627 / 200) = 181 / 10"
  "round1 (409 / 200) = 2"
  "round1 (411 / 200) = 21 / 10"
  by code_simp+

lemma jobs_complete: "job_complete example_job" "job_complete empty_job"
  by (simp_all add: job_complete_def example_job_def empty_job_def)

lemma example_ranking:
  "rank_candidates 2024 [example_resume] example_job
     = Inr [\<lparr>score = 1181 / 10, ats_score = 181 / 10,
             resume = four_fields example_resume, rank = 1\<rparr>]"
  by (simp add: rank_candidates_returns jobs_complete sort_by_score_desc_def
        candidate_of_def example_values round1_values)

lemma tie_ranking:
  "rank_candidates 2024 [short_resume, other_short_resume] empty_job
     = Inr [\<lparr>score = 2, ats_score = 2, resume = four_fields short_resume, rank = 1\<rparr>,
            \<lparr>score = 2, ats_score = 2, resume = four_fields other_short_resume, rank = 2\<rparr>]"
  by (simp add: rank_candidates_returns jobs_complete sort_by_score_desc_def
        candidate_of_def short_values round1_values)


lemma empty_ats:
  "keyword_coverage [] [] = 10"
  "compute_ats_score (four_fields Map.empty) empty_job = Inr 10"
proof -
  show "keyword_coverage [] [] = 10" by code_simp
  have "ats_sub_score empty_job Map.empty = 10"
    unfolding empty_job_def by code_simp
  then show "compute_ats_score (four_fields Map.empty) empty_job = Inr 10"
    by (simp add: compute_ats_score_complete jobs_complete)
qed

subsection \<open>Sub-score bounds, the empty job and the composite score\<close>

text \<open>
  Claim C8.  For all inputs every sub-score lies within its cap: the skill score in
  [0, 50], the experience score in [0, 30], the education score in [0, 15], the
  certification score in [0, 5], and the ATS score, whenever \<open>compute_ats_score\<close>
  returns one, in [0, 20].  The ATS bound rests on the final cap: the three
  components add up to 22 for a resume that covers the job's keyword, has all four
  sections and is at least 800 characters long.
\<close>

theorem sub_score_bounds:
  "0 \<le> compute_skill_similarity resume_skills req_skills
   \<and> compute_skill_similarity resume_skills req_skills \<le> 50
   \<and> 0 \<le> compute_experience_score current_year resume_experience required_exp
   \<and> compute_experience_score current_year resume_experience required_exp \<le> 30
   \<and> 0 \<le> compute_education_similarity resume_edu required_edu
   \<and> compute_education_similarity resume_edu required_edu \<le> 15
   \<and> 0 \<le> compute_certification_similarity resume_certs required_certs
   \<and> compute_certification_similarity resume_certs required_certs \<le> 5
   \<and> (\<forall>a. compute_ats_score resume_d job_data = Inr a \<longrightarrow> 0 \<le> a \<and> a \<le> 20)
   \<and> ats_uncapped [''abcd'', replicate 800 (CHR ''a'')] [''x''] [''x''] [''x'']
         [''abcd''] [] [] = 22"
  using skill_bounds[of resume_skills req_skills]
    experience_bounds[of current_year resume_experience required_exp]
    education_bounds[of resume_edu required_edu]
    certification_bounds[of resume_certs required_certs]
    compute_ats_score_bounds[of resume_d job_data]
    cap_needed
  by blast

text \<open>
  Witness for C8: the resume with four empty fields against the job with no
  requirement, where \<open>compute_ats_score\<close> returns 10.
\<close>

theorem sub_score_bounds_witness:
  "compute_ats_score (four_fields Map.empty) empty_job = Inr 10
   \<and> (0::rat) \<le> 10 \<and> (10::rat) \<le> 20
   \<and> 0 \<le> compute_skill_similarity [''python''] [''python'']
   \<and> compute_skill_similarity [''python''] [''python''] \<le> 50"
  using sub_score_bounds[of "[''python'']" "[''python'']" 2024 "[]" 0 "[]" "[]" "[]" "[]"
          "four_fields Map.empty" empty_job]
    empty_ats(2)
  by simp

text \<open>
  Claim C4 fails on the code.  When the three requirement lists of the job are
  empty the job text is empty, \<^verbatim>\<open>re.split\<close> yields the one piece \<^verbatim>\<open>''\<close>, and the set of
  job keywords is not empty, so the guard \<^verbatim>\<open>if job_keywords\<close> never yields 0.  For a
  resume with four empty fields the resume text is empty as well, the empty piece
  is common to both sets, and the keyword coverage is 10, not 0; the ATS score of
  that resume is 10.
\<close>

theorem empty_job_keyword_coverage:
  "keyword_coverage (lower (join_space ([] @ [] @ [] @ []))) (lower (join_space ([] @ [] @ []))) = 10
   \<and> compute_ats_score (four_fields Map.empty) empty_job = Inr 10"
  using empty_ats by (simp add: lower_def)

text \<open>
  Claim C1, amended.  Every candidate that \<open>rank_candidates\<close> returns has a
  composite score in [0, 120], the sum of the five caps 50, 30, 15, 5 and 20.
\<close>

theorem composite_score_bounds:
  assumes "rank_candidates current_year resumes job_data = Inr out" and "c \<in> set out"
  shows "0 \<le> score c \<and> score c \<le> 120"
proof -
  from rank_candidates_Inr[OF assms(1)]
  have "rank_candidates current_year resumes job_data
        = Inr (assign_ranks 1 (sort_by_score_desc (map (candidate_of current_year job_data) resumes)))"
    by (rule rank_candidates_returns)
  with assms(1) have out: "out = assign_ranks 1 (sort_by_score_desc
                              (map (candidate_of current_year job_data) resumes))"
    by simp
  have "score c \<in> set (map score out)" using assms(2) by simp
  also have "map score out = map score (sort_by_score_desc
                              (map (candidate_of current_year job_data) resumes))"
    unfolding out by (rule score_assign_ranks)
  also have "set \<dots> = score ` set (map (candidate_of current_year job_data) resumes)"
    by (simp add: sort_by_score_desc_def)
  finally obtain r where "score c = round1 (exact_sum current_year job_data r)"
    by (auto simp: candidate_of_def)
  then show ?thesis
    using round1_bounds[of "exact_sum current_year job_data r"] exact_sum_bounds[of current_year job_data r]
    by simp
qed

text \<open>
  Claim C1, as the specification states it, fails: nothing caps the sum at 100.  A
  resume that meets a job's one skill, its year of experience, its degree and its
  certification has the composite score 118.1.
\<close>

theorem composite_score_counterexample:
  "rank_candidates 2024 [example_resume] example_job
     = Inr [\<lparr>score = 1181 / 10, ats_score = 181 / 10,
             resume = four_fields example_resume, rank = 1\<rparr>]
   \<and> \<not> (1181 / 10 \<le> (100::rat))"
  using example_ranking by simp

text \<open>Witness for C1, amended: the same resume and job.\<close>

theorem composite_score_bounds_witness:
  "rank_candidates 2024 [example_resume] example_job
     = Inr [\<lparr>score = 1181 / 10, ats_score = 181 / 10,
             resume = four_fields example_resume, rank = 1\<rparr>]
   \<and> (0::rat) \<le> 1181 / 10 \<and> (1181 / 10 :: rat) \<le> 120"
  using composite_score_bounds[OF example_ranking, of "\<lparr>score = 1181 / 10, ats_score = 181 / 10,
             resume = four_fields example_resume, rank = 1\<rparr>"] example_ranking
  by simp

subsection \<open>The reported scores\<close>

lemma rank_candidates_out:
  assumes "rank_candidates cy rs job_data = Inr out"
  shows "out = assign_ranks 1 (sort_by_score_desc (map (candidate_of cy job_data) rs))"
  using rank_candidates_returns[OF rank_candidates_Inr[OF assms], of cy] assms by simp

lemma sort_two_tied:
  assumes "score a = score b"
  shows "sort_by_score_desc [a, b] = [a, b]"
  using assms by (simp add: sort_by_score_desc_def)





subsection \<open>The order of the ranking\<close>

text \<open>
  Claim C7.  For a batch of N resumes (and a job dictionary with its three list
  keys, or an empty batch) \<open>rank_candidates\<close> returns; what it returns has N
  candidates, each the one that the loop computes for an input resume; the ranks are
  1, ..., N in this order; the scores descend; for every score the candidates with
  that score stand in the order of the input (the sort is stable); and for a batch
  of two resumes with the same score the output is the input order with the ranks
  1 and 2.
\<close>

theorem ranking_order:
  assumes "resumes = [] \<or> job_complete job_data"
  shows "\<exists>out. rank_candidates current_year resumes job_data = Inr out
     \<and> (\<forall>r\<in>set resumes. score_resume current_year job_data r
                            = Inr (candidate_of current_year job_data r))
     \<and> length out = length resumes
     \<and> map rank out = [1..<Suc (length resumes)]
     \<and> sorted_wrt (\<lambda>a b. a \<ge> b) (map score out)
     \<and> (\<forall>v. filter (\<lambda>c. score c = v) (map unranked out)
              = filter (\<lambda>c. score c = v) (map (candidate_of current_year job_data) resumes))
     \<and> (\<forall>a b. resumes = [a, b]
               \<and> score (candidate_of current_year job_data a)
                   = score (candidate_of current_year job_data b)
            \<longrightarrow> map unranked out = [candidate_of current_year job_data a,
                                    candidate_of current_year job_data b]
                \<and> map rank out = [1, 2])"
proof -
  let ?cs = "map (candidate_of current_year job_data) resumes"
  let ?out = "assign_ranks 1 (sort_by_score_desc ?cs)"
  show ?thesis
  proof (rule exI[of _ ?out], intro conjI)
    show "rank_candidates current_year resumes job_data = Inr ?out"
      using assms by (rule rank_candidates_returns)
    show "\<forall>r\<in>set resumes. score_resume current_year job_data r
                            = Inr (candidate_of current_year job_data r)"
    proof
      fix r assume "r \<in> set resumes"
      then have "resumes \<noteq> []" by auto
      with assms have "job_complete job_data" by simp
      then show "score_resume current_year job_data r
                 = Inr (candidate_of current_year job_data r)"
        by (rule score_resume_complete)
    qed
    show "length ?out = length resumes"
      by (simp add: length_assign_ranks sort_by_score_desc_def)
    show "map rank ?out = [1..<Suc (length resumes)]"
      by (simp add: rank_assign_ranks sort_by_score_desc_def)
    show "sorted_wrt (\<lambda>a b. a \<ge> b) (map score ?out)"
      by (simp only: score_assign_ranks sorted_desc_sort)
    show "\<forall>v. filter (\<lambda>c. score c = v) (map unranked ?out)
              = filter (\<lambda>c. score c = v) ?cs"
      by (simp only: unranked_assign_ranks stable_sort) simp
    show "\<forall>a b. resumes = [a, b]
               \<and> score (candidate_of current_year job_data a)
                   = score (candidate_of current_year job_data b)
            \<longrightarrow> map unranked ?out = [candidate_of current_year job_data a,
                                    candidate_of current_year job_data b]
                \<and> map rank ?out = [1, 2]"
    proof (intro allI impI)
      fix a b
      assume h: "resumes = [a, b]
               \<and> score (candidate_of current_year job_data a)
                   = score (candidate_of current_year job_data b)"
      then have "sort_by_score_desc ?cs = [candidate_of current_year job_data a,
                                    candidate_of current_year job_data b]"
        by (simp add: sort_two_tied)
      then show "map unranked ?out = [candidate_of current_year job_data a,
                                    candidate_of current_year job_data b]
                \<and> map rank ?out = [1, 2]"
        by (simp add: unranked_def)
    qed
  qed
qed

text \<open>
  Witness for C7: two resumes with the same score 2.0 against the job with no
  requirement.
\<close>

theorem ranking_order_witness:
  "\<exists>out. rank_candidates 2024 [short_resume, other_short_resume] empty_job = Inr out
     \<and> map rank out = [1, 2]
     \<and> map unranked out
        = [\<lparr>score = 2, ats_score = 2, resume = four_fields short_resume\<rparr>,
           \<lparr>score = 2, ats_score = 2, resume = four_fields other_short_resume\<rparr>]"
proof -
  have c: "[short_resume, other_short_resume] = [] \<or> job_complete empty_job"
    by (simp add: jobs_complete)
  have a: "candidate_of 2024 empty_job short_resume
           = \<lparr>score = 2, ats_score = 2, resume = four_fields short_resume\<rparr>"
    by (simp add: candidate_of_def short_values round1_values)
  have b: "candidate_of 2024 empty_job other_short_resume
           = \<lparr>score = 2, ats_score = 2, resume = four_fields other_short_resume\<rparr>"
    by (simp add: candidate_of_def short_values round1_values)
  from ranking_order[OF c, of 2024]
  obtain out where ret: "rank_candidates 2024 [short_resume, other_short_resume] empty_job = Inr out"
    and two: "\<forall>x y. [short_resume, other_short_resume] = [x, y]
               \<and> score (candidate_of 2024 empty_job x) = score (candidate_of 2024 empty_job y)
            \<longrightarrow> map unranked out = [candidate_of 2024 empty_job x, candidate_of 2024 empty_job y]
                \<and> map rank out = [1, 2]"
    by (elim exE conjE)
  have "[short_resume, other_short_resume] = [short_resume, other_short_resume]
        \<and> score (candidate_of 2024 empty_job short_resume)
            = score (candidate_of 2024 empty_job other_short_resume)"
    by (simp add: a b)
  with two[rule_format, of short_resume other_short_resume]
  have "map unranked out = [candidate_of 2024 empty_job short_resume,
                            candidate_of 2024 empty_job other_short_resume]
        \<and> map rank out = [1, 2]" .
  with ret show ?thesis by (simp add: a b)
qed

subsection \<open>The resume of a candidate\<close>

text \<open>
  Claim C10.  When \<open>rank_candidates\<close> returns, the resume fields of the output are,
  up to order, the four-field dictionaries of the input resumes; and every output
  candidate is the candidate of some input resume \<open>r\<close>, its resume field has exactly
  the keys skills, experience, education and certifications, each of the four holds
  the value of \<open>r\<close> unchanged or the empty list when \<open>r\<close> has no such key, and every
  other key is absent.
\<close>

theorem resume_frame:
  assumes "rank_candidates current_year resumes job_data = Inr out"
  shows "mset (map resume out) = mset (map four_fields resumes)
     \<and> (\<forall>c\<in>set out. \<exists>r\<in>set resumes.
           unranked c = candidate_of current_year job_data r
           \<and> dom (resume c) = {''skills'', ''experience'', ''education'', ''certifications''}
           \<and> (\<forall>k\<in>{''skills'', ''experience'', ''education'', ''certifications''}.
                 resume c k = Some (case r k of None \<Rightarrow> [] | Some v \<Rightarrow> v))
           \<and> (\<forall>k. k \<notin> {''skills'', ''experience'', ''education'', ''certifications''}
                 \<longrightarrow> resume c k = None))"
proof
  note out = rank_candidates_out[OF assms]
  let ?cs = "map (candidate_of current_year job_data) resumes"
  have "map resume out = map resume (sort_by_score_desc ?cs)"
    unfolding out by (rule resume_assign_ranks)
  then have "mset (map resume out) = image_mset resume (mset (sort_by_score_desc ?cs))"
    by simp
  also have "\<dots> = image_mset resume (mset ?cs)"
    by (simp only: mset_sort_desc)
  also have "\<dots> = mset (map four_fields resumes)"
    by (simp add: candidate_of_def multiset.map_comp comp_def)
  finally show "mset (map resume out) = mset (map four_fields resumes)" .
  show "\<forall>c\<in>set out. \<exists>r\<in>set resumes.
           unranked c = candidate_of current_year job_data r
           \<and> dom (resume c) = {''skills'', ''experience'', ''education'', ''certifications''}
           \<and> (\<forall>k\<in>{''skills'', ''experience'', ''education'', ''certifications''}.
                 resume c k = Some (case r k of None \<Rightarrow> [] | Some v \<Rightarrow> v))
           \<and> (\<forall>k. k \<notin> {''skills'', ''experience'', ''education'', ''certifications''}
                 \<longrightarrow> resume c k = None)"
  proof
    fix c assume "c \<in> set out"
    then have "unranked c \<in> set (map unranked out)" by simp
    also have "map unranked out = sort_by_score_desc ?cs"
      unfolding out by (rule unranked_assign_ranks)
    also have "set \<dots> = candidate_of current_year job_data ` set resumes"
      by (simp add: sort_by_score_desc_def)
    finally obtain r where r: "r \<in> set resumes"
        "unranked c = candidate_of current_year job_data r"
      by (elim imageE)
    from r(2) have res: "resume c = four_fields r"
      by (simp add: unranked_def candidate_of_def)
    have d: "dom (resume c) = {''skills'', ''experience'', ''education'', ''certifications''}"
      unfolding res by (rule dom_four_fields)
    have f: "\<forall>k\<in>{''skills'', ''experience'', ''education'', ''certifications''}.
                 resume c k = Some (case r k of None \<Rightarrow> [] | Some v \<Rightarrow> v)"
      unfolding res by (simp add: four_fields_apply field_def get_default_def)
    have n: "\<forall>k. k \<notin> {''skills'', ''experience'', ''education'', ''certifications''}
                 \<longrightarrow> resume c k = None"
      unfolding res by (intro allI impI) (rule four_fields_other)
    show "\<exists>r\<in>set resumes.
           unranked c = candidate_of current_year job_data r
           \<and> dom (resume c) = {''skills'', ''experience'', ''education'', ''certifications''}
           \<and> (\<forall>k\<in>{''skills'', ''experience'', ''education'', ''certifications''}.
                 resume c k = Some (case r k of None \<Rightarrow> [] | Some v \<Rightarrow> v))
           \<and> (\<forall>k. k \<notin> {''skills'', ''experience'', ''education'', ''certifications''}
                 \<longrightarrow> resume c k = None)"
      by (rule bexI[OF _ r(1)]) (intro conjI r(2) d f n)
  qed
qed

text \<open>
  Witness for C10: a resume with a skill and a contact field; the contact field is
  gone from the output and the missing experience field is the empty list.
\<close>

theorem resume_frame_witness:
  "rank_candidates 2024 [short_resume, other_short_resume] empty_job
     = Inr [\<lparr>score = 2, ats_score = 2, resume = four_fields short_resume, rank = 1\<rparr>,
            \<lparr>score = 2, ats_score = 2, resume = four_fields other_short_resume, rank = 2\<rparr>]
   \<and> short_resume ''email'' = Some [''a@b.c'']
   \<and> four_fields short_resume ''email'' = None
   \<and> four_fields short_resume ''skills'' = Some [''aaaaaaaaa'']
   \<and> four_fields short_resume ''experience'' = Some []
   \<and> dom (four_fields short_resume)
       = {''skills'', ''experience'', ''education'', ''certifications''}"
proof -
  let ?c = "\<lparr>score = 2, ats_score = 2, resume = four_fields short_resume, rank = 1\<rparr>"
  let ?d = "\<lparr>score = 2, ats_score = 2, resume = four_fields other_short_resume, rank = 2\<rparr>"
  from resume_frame[OF tie_ranking]
  have all: "\<forall>c\<in>set [?c, ?d]. \<exists>r\<in>set [short_resume, other_short_resume].
           unranked c = candidate_of 2024 empty_job r
           \<and> dom (resume c) = {''skills'', ''experience'', ''education'', ''certifications''}
           \<and> (\<forall>k\<in>{''skills'', ''experience'', ''education'', ''certifications''}.
                 resume c k = Some (case r k of None \<Rightarrow> [] | Some v \<Rightarrow> v))
           \<and> (\<forall>k. k \<notin> {''skills'', ''experience'', ''education'', ''certifications''}
                 \<longrightarrow> resume c k = None)"
    by (rule conjunct2)
  have mem: "?c \<in> set [?c, ?d]" by simp
  from bspec[OF all mem] obtain r where
    d: "dom (resume ?c) = {''skills'', ''experience'', ''education'', ''certifications''}"
    and n: "\<forall>k. k \<notin> {''skills'', ''experience'', ''education'', ''certifications''}
                 \<longrightarrow> resume ?c k = None"
    by (elim bexE conjE)
  have e: "''email'' \<notin> {''skills'', ''experience'', ''education'', ''certifications''}"
    by simp
  from n[rule_format, OF e] have email: "four_fields short_resume ''email'' = None"
    by simp
  from d have dm: "dom (four_fields short_resume)
       = {''skills'', ''experience'', ''education'', ''certifications''}"
    by simp
  have rest: "short_resume ''email'' = Some [''a@b.c'']"
    "four_fields short_resume ''skills'' = Some [''aaaaaaaaa'']"
    "four_fields short_resume ''experience'' = Some []"
    by (simp_all add: short_resume_def four_fields_def get_default_def)
  from tie_ranking email dm rest show ?thesis
    by (intro conjI)
qed

end
